theory Spec2Isabelle
  imports Complex_Main
begin

section \<open>Spatial point types of the driver (neo4j/v1/types/spatial.py)\<close>

text \<open>
  The module defines the class \<open>Point\<close>, a subclass of \<open>tuple\<close>, and creates four
  subclasses of it from the table \<open>__point_types\<close> when it is imported. The model
  keeps the class objects, the instances, the exceptions and the values a point can be
  compared with as data, and every method as a function on them.
\<close>

subsection \<open>Exceptions and built-ins\<close>

text \<open>
  The exceptions that the module raises itself (\<open>ValueError\<close>, with its message),
  those that the interpreter raises on the operations the module performs (reading a
  missing attribute, iterating a value that is not iterable, indexing a tuple out of
  range), and an exception of any other class, given by the name of the class, which
  the code of a value handed to the module may raise.
\<close>

datatype exn =
  ValueError string | AttributeError | TypeError | IndexError | OtherException string

text \<open>
  \<open>"%d" % n\<close> for an integer \<open>n\<close>: the decimal digits, most significant first, after a
  minus sign when \<open>n\<close> is negative. \<open>str(n)\<close> gives the same text for an integer.
\<close>

fun digits :: "nat \<Rightarrow> string" where
  "digits n =
     (if n < 10 then [''0123456789'' ! n]
      else digits (n div 10) @ [''0123456789'' ! (n mod 10)])"

declare digits.simps [simp del]

definition fmt_d :: "int \<Rightarrow> string" where
  "fmt_d i = (if i < 0 then CHR ''-'' # digits (nat (- i)) else digits (nat i))"

text \<open>\<open>sep.join(parts)\<close>: the parts in order, with \<open>sep\<close> between neighbours.\<close>

fun join :: "string \<Rightarrow> string list \<Rightarrow> string" where
  "join sep [] = []"
| "join sep [s] = s"
| "join sep (s # t # ts) = s @ sep @ join sep (t # ts)"

text \<open>
  \<open>t[index]\<close> on a tuple, for an index that is not negative (the only indices the module
  uses come from \<open>enumerate\<close>): the item when there is one, \<open>IndexError\<close> otherwise.
\<close>

definition getitem :: "'a list \<Rightarrow> nat \<Rightarrow> exn + 'a" where
  "getitem t index = (if index < length t then Inr (t ! index) else Inl IndexError)"

subsection \<open>The table of point types and the classes made from it\<close>

text \<open>
  \<open>__point_types\<close>: CRS code, type name and attribute names of each subclass.
\<close>

definition point_types :: "(int \<times> string \<times> string list) list" where
  "point_types =
     [(7203, ''CartesianPoint'', [''x'', ''y'']),
      (9157, ''CartesianPoint3D'', [''x'', ''y'', ''z'']),
      (4326, ''WGS84Point'', [''longitude'', ''latitude'']),
      (4979, ''WGS84Point3D'', [''longitude'', ''latitude'', ''height''])]"

text \<open>
  A class object: its name, its class attribute \<open>crs\<close> (\<open>None\<close> is Python's \<open>None\<close>),
  its properties (attribute name to the index the property reads) and its direct
  subclasses in the order of their creation, which is the order of
  \<open>cls.__subclasses__()\<close>. No name of the table is \<open>crs\<close>, so the properties never
  replace the \<open>crs\<close> entry of the attribute dictionary and the two are kept apart.
\<close>

datatype pyclass =
  PyClass (cname: string) (ccrs: "int option") (cprops: "string \<rightharpoonup> nat")
    (csubclasses: "pyclass list")

text \<open>
  The inner loop of \<open>__create_point_types\<close>:
  \<open>for i, field in enumerate(fields): attributes[field] = property(lambda self, index=i: self[index])\<close>,
  a later field of the same name replacing an earlier one.
\<close>

fun add_properties :: "(string \<rightharpoonup> nat) \<Rightarrow> nat \<Rightarrow> string list \<Rightarrow> (string \<rightharpoonup> nat)" where
  "add_properties attributes i [] = attributes"
| "add_properties attributes i (field # fields) =
     add_properties (attributes(field \<mapsto> i)) (Suc i) fields"

text \<open>\<open>type(name, (Point,), attributes)\<close> for one row of the table.\<close>

fun make_point_type :: "int \<times> string \<times> string list \<Rightarrow> pyclass" where
  "make_point_type (crs, name, fields) =
     PyClass name (Some crs) (add_properties Map.empty 0 fields) []"

text \<open>
  \<open>__create_point_types\<close>: one subclass of \<open>Point\<close> per row, in the order of the table.
\<close>

definition create_point_types :: "pyclass list" where
  "create_point_types = map make_point_type point_types"

text \<open>
  The class \<open>Point\<close> after the import of the module: \<open>crs = None\<close>, no properties,
  and the four created classes as its subclasses.
\<close>

definition Point :: pyclass where
  "Point = PyClass ''Point'' None Map.empty create_point_types"

subsection \<open>Instances\<close>

text \<open>
  An instance of \<open>Point\<close> or of a subclass: its class, the value that \<open>self.crs\<close>
  reads (the instance attribute once \<open>hydrate\<close> has assigned it, the class attribute
  before) and the items of the tuple.
\<close>

record 'a point =
  ptype :: pyclass
  pcrs :: "int option"
  pcoords :: "'a list"

text \<open>\<open>Point.__new__(cls, iterable)\<close>: a tuple of class \<open>cls\<close> holding the items.\<close>

definition point_new :: "pyclass \<Rightarrow> 'a list \<Rightarrow> 'a point" where
  "point_new cls iterable = \<lparr>ptype = cls, pcrs = ccrs cls, pcoords = iterable\<rparr>"

subsection \<open>The class methods\<close>

text \<open>
  \<open>Point.__get_subclass(cls, crs)\<close>: the class itself when its \<open>crs\<close> is the one asked
  for, otherwise the first hit among its subclasses, searched depth first;
  \<open>None\<close> when there is none. A class object is truthy, so \<open>if got\<close> holds exactly when
  the recursive call found a class.
\<close>

fun get_subclass :: "pyclass \<Rightarrow> int \<Rightarrow> pyclass option"
  and get_subclass_loop :: "pyclass list \<Rightarrow> int \<Rightarrow> pyclass option" where
  "get_subclass (PyClass name c props subs) crs =
     (if c = Some crs then Some (PyClass name c props subs)
      else get_subclass_loop subs crs)"
| "get_subclass_loop [] crs = None"
| "get_subclass_loop (subclass # rest) crs =
     (case get_subclass subclass crs of
        Some got \<Rightarrow> Some got
      | None \<Rightarrow> get_subclass_loop rest crs)"

text \<open>
  \<open>Point.hydrate(cls, crs, *coordinates)\<close>, with \<open>coordinates\<close> the tuple of the
  positional arguments after \<open>crs\<close>. The CRS code is an integer, as the \<open>%d\<close> of the
  first message expects.
\<close>

definition hydrate :: "pyclass \<Rightarrow> int \<Rightarrow> 'a list \<Rightarrow> exn + 'a point" where
  "hydrate cls crs coordinates =
     (case get_subclass cls crs of
        None \<Rightarrow> Inl (ValueError (''CRS '' @ fmt_d crs @ '' not supported''))
      | Some point_class \<Rightarrow>
          if 2 \<le> length coordinates \<and> length coordinates \<le> 3
          then Inr ((point_new point_class coordinates)\<lparr>pcrs := Some crs\<rparr>)
          else Inl (ValueError (fmt_d (int (length coordinates))
                 @ ''-dimensional Point values are not supported'')))"

subsection \<open>The instance methods\<close>

text \<open>
  \<open>Point.__repr__\<close>: \<open>"POINT(%s)" % " ".join(map(str, self))\<close>. The built-in \<open>str\<close> on
  the coordinates is a parameter. Neither \<open>Point\<close> nor \<open>tuple\<close> defines \<open>__str__\<close>, so
  \<open>str(p)\<close> of a point is \<open>repr(p)\<close>.
\<close>

definition point_repr :: "('a \<Rightarrow> string) \<Rightarrow> 'a point \<Rightarrow> string" where
  "point_repr str self = ''POINT('' @ join '' '' (map str (pcoords self)) @ '')''"

text \<open>
  The values a point can be compared with: another point, an integer, a list, or an
  instance of a class that has nothing to do with \<open>Point\<close>. Of the last, the model keeps
  what the comparison does with it. Reading its attribute \<open>crs\<close> gives a value (an
  integer, or \<open>None\<close> for Python's \<open>None\<close>) or raises: \<open>AttributeError\<close> when the
  object has no such attribute, any exception when \<open>crs\<close> is a property or the class
  defines \<open>__getattr__\<close>. Iterating it yields items or raises: \<open>TypeError\<close> when the
  object is not iterable, any exception when its \<open>__iter__\<close> raises one.
\<close>

datatype 'a pyobject =
    PyPoint "'a point"
  | PyInt int
  | PyList "'a list"
  | PyInstance "exn + int option" "exn + 'a list"

text \<open>\<open>other.crs\<close>: integers and lists have no such attribute.\<close>

fun getattr_crs :: "'a pyobject \<Rightarrow> exn + int option" where
  "getattr_crs (PyPoint p) = Inr (pcrs p)"
| "getattr_crs (PyInt n) = Inl AttributeError"
| "getattr_crs (PyList xs) = Inl AttributeError"
| "getattr_crs (PyInstance read_crs iterate) = read_crs"

text \<open>\<open>tuple(other)\<close>: an integer is not iterable.\<close>

fun tuple_of :: "'a pyobject \<Rightarrow> exn + 'a list" where
  "tuple_of (PyPoint p) = Inr (pcoords p)"
| "tuple_of (PyInt n) = Inl TypeError"
| "tuple_of (PyList xs) = Inr xs"
| "tuple_of (PyInstance read_crs iterate) = iterate"

text \<open>
  \<open>Point.__eq__\<close>. The body of the \<open>try\<close> evaluates \<open>self.crs == other.crs\<close> first and
  \<open>tuple(self) == tuple(other)\<close> only when the first comparison holds; the handler
  turns \<open>AttributeError\<close> and \<open>TypeError\<close> into \<open>False\<close> and lets every other
  exception pass.
\<close>

definition eq_body :: "'a point \<Rightarrow> 'a pyobject \<Rightarrow> exn + bool" where
  "eq_body self other =
     (case getattr_crs other of
        Inl e \<Rightarrow> Inl e
      | Inr c \<Rightarrow>
          if pcrs self = c
          then (case tuple_of other of
                  Inl e \<Rightarrow> Inl e
                | Inr t \<Rightarrow> Inr (pcoords self = t))
          else Inr False)"

fun eq_except :: "exn + bool \<Rightarrow> exn + bool" where
  "eq_except (Inl AttributeError) = Inr False"
| "eq_except (Inl TypeError) = Inr False"
| "eq_except r = r"

definition point_eq :: "'a point \<Rightarrow> 'a pyobject \<Rightarrow> exn + bool" where
  "point_eq self other = eq_except (eq_body self other)"

text \<open>\<open>Point.__ne__\<close>: \<open>not self.__eq__(other)\<close>.\<close>

definition point_ne :: "'a point \<Rightarrow> 'a pyobject \<Rightarrow> exn + bool" where
  "point_ne self other =
     (case point_eq self other of Inl e \<Rightarrow> Inl e | Inr b \<Rightarrow> Inr (\<not> b))"

text \<open>
  \<open>Point.__hash__\<close>: \<open>hash(self.crs) ^ hash(tuple(self))\<close>. The built-in \<open>hash\<close> on a CRS
  value and on a tuple of coordinates are parameters; \<open>^\<close> is the exclusive or of
  Python's integers.
\<close>

definition point_hash :: "(int option \<Rightarrow> int) \<Rightarrow> ('a list \<Rightarrow> int) \<Rightarrow> 'a point \<Rightarrow> int" where
  "point_hash hash_crs hash_tuple self =
     Bit_Operations.xor (hash_crs (pcrs self)) (hash_tuple (pcoords self))"

text \<open>
  Reading the attribute \<open>name\<close> of an instance, for a name that neither \<open>tuple\<close> nor
  \<open>Point\<close> defines (so not \<open>crs\<close>, \<open>hydrate\<close>, \<open>count\<close>, \<open>index\<close> or a special
  method, which the instance inherits): the property of the class when it has one of
  that name, which evaluates \<open>self[index]\<close>; \<open>AttributeError\<close> otherwise.
\<close>

definition getattr_property :: "'a point \<Rightarrow> string \<Rightarrow> exn + 'a" where
  "getattr_property self name =
     (case cprops (ptype self) name of
        None \<Rightarrow> Inl AttributeError
      | Some index \<Rightarrow> getitem (pcoords self) index)"

subsection \<open>The display format in the words of the specification\<close>

text \<open>
  The specification describes the text of a point as \<open>POINT(\<close>, the coordinates in their
  order, separated by single spaces, and \<open>)\<close>: the first coordinate as it is, every later
  one after one space. This definition follows those words and is compared with
  \<open>point_repr\<close> below.
\<close>

fun spec_coords :: "string list \<Rightarrow> string" where
  "spec_coords [] = []"
| "spec_coords (s # ss) = s @ concat (map (\<lambda>t. CHR '' '' # t) ss)"

definition spec_display :: "string list \<Rightarrow> string" where
  "spec_display parts = ''POINT('' @ spec_coords parts @ '')''"

section \<open>Decimal formatting\<close>

text \<open>
  The text of \<open>%d\<close> determines the integer: different integers give different texts, so
  an error message that holds the formatted value holds the value.
\<close>

lemma digit_inj:
  "i < 10 \<Longrightarrow> j < 10 \<Longrightarrow> ''0123456789'' ! i = ''0123456789'' ! j \<Longrightarrow> i = j"
  using nth_eq_iff_index_eq [of "''0123456789''" i j] by simp

lemma digit_not_minus: "i < 10 \<Longrightarrow> ''0123456789'' ! i \<noteq> CHR ''-''"
proof -
  assume "i < 10"
  then have "''0123456789'' ! i \<in> set ''0123456789''"
    by (intro nth_mem) simp
  then show ?thesis by auto
qed

lemma digits_small: "n < 10 \<Longrightarrow> digits n = [''0123456789'' ! n]"
  by (subst digits.simps) simp

lemma digits_large:
  "\<not> n < 10 \<Longrightarrow> digits n = digits (n div 10) @ [''0123456789'' ! (n mod 10)]"
  by (subst digits.simps) simp

lemma digits_nonempty: "digits n \<noteq> []"
  by (cases "n < 10") (simp_all add: digits_small digits_large)

lemma digits_hd_not_minus: "hd (digits n) \<noteq> CHR ''-''"
proof (induction n rule: digits.induct)
  case (1 n)
  show ?case
  proof (cases "n < 10")
    case True
    then show ?thesis by (simp add: digits_small digit_not_minus)
  next
    case False
    with 1 show ?thesis
      by (simp add: digits_large digits_nonempty)
  qed
qed

lemma digits_inj: "digits m = digits n \<Longrightarrow> m = n"
proof (induction m arbitrary: n rule: digits.induct)
  case (1 m)
  show ?case
  proof (cases "m < 10")
    case m: True
    show ?thesis
    proof (cases "n < 10")
      case True
      with m "1.prems" show ?thesis
        by (simp add: digits_small digit_inj)
    next
      case False
      with m "1.prems" digits_nonempty [of "n div 10"] show ?thesis
        by (auto simp add: digits_small digits_large)
    qed
  next
    case m: False
    show ?thesis
    proof (cases "n < 10")
      case True
      with m "1.prems" show ?thesis
        by (simp add: digits_small digits_large digits_nonempty)
    next
      case False
      with m "1.prems" have front: "digits (m div 10) = digits (n div 10)"
        and units: "''0123456789'' ! (m mod 10) = ''0123456789'' ! (n mod 10)"
        by (simp_all add: digits_large)
      from "1.IH" [OF m front] have "m div 10 = n div 10" .
      moreover from units have "m mod 10 = n mod 10"
        by (intro digit_inj) simp_all
      ultimately show ?thesis
        by (metis div_mult_mod_eq)
    qed
  qed
qed

lemma fmt_d_inject: "fmt_d i = fmt_d j \<Longrightarrow> i = j"
proof -
  assume eq: "fmt_d i = fmt_d j"
  have start: "hd (fmt_d k) = CHR ''-'' \<longleftrightarrow> k < 0" for k
    by (simp add: fmt_d_def digits_hd_not_minus)
  from eq have sign: "i < 0 \<longleftrightarrow> j < 0"
    using start [of i] start [of j] by simp
  show ?thesis
  proof (cases "i < 0")
    case True
    with sign eq have "digits (nat (- i)) = digits (nat (- j))"
      by (simp add: fmt_d_def)
    then have "nat (- i) = nat (- j)" by (rule digits_inj)
    with True sign show ?thesis by simp
  next
    case False
    with sign eq have "digits (nat i) = digits (nat j)"
      by (simp add: fmt_d_def)
    then have "nat i = nat j" by (rule digits_inj)
    with False sign show ?thesis by simp
  qed
qed

lemma inj_fmt_d: "inj fmt_d"
  by (rule injI) (rule fmt_d_inject)

section \<open>Resolving a CRS code\<close>

text \<open>
  The search of \<open>__get_subclass\<close> through the classes created from a table is a search
  of the table for the first row with the code.
\<close>

lemma get_subclass_loop_created:
  "get_subclass_loop (map make_point_type rows) crs =
     map_option make_point_type (find (\<lambda>row. fst row = crs) rows)"
proof (induction rows)
  case Nil
  show ?case by simp
next
  case (Cons row rows)
  obtain c name fields where row: "row = (c, name, fields)"
    by (cases row) auto
  show ?case
    using Cons.IH by (simp add: row)
qed

lemma get_subclass_Point:
  "get_subclass Point crs =
     map_option make_point_type (find (\<lambda>row. fst row = crs) point_types)"
  by (simp add: Point_def create_point_types_def get_subclass_loop_created)

lemma find_registered:
  assumes "c \<in> {7203, 9157, 4326, 4979}"
  shows "\<exists>name fields. find (\<lambda>row. fst row = c) point_types = Some (c, name, fields)
           \<and> (c, name, fields) \<in> set point_types"
  using assms by (auto simp: point_types_def)

lemma find_unregistered:
  assumes "c \<notin> {7203, 9157, 4326, 4979}"
  shows "find (\<lambda>row. fst row = c) point_types = None"
  using assms by (simp add: point_types_def)

lemma find_row:
  assumes "(c, name, axes) \<in> set point_types"
  shows "find (\<lambda>row. fst row = c) point_types = Some (c, name, axes)"
  using assms by (auto simp: point_types_def)

text \<open>\<open>Point.hydrate\<close> called on \<open>Point\<close> itself, with the search replaced by the table.\<close>

lemma hydrate_Point:
  "hydrate Point crs coordinates =
     (case find (\<lambda>row. fst row = crs) point_types of
        None \<Rightarrow> Inl (ValueError (''CRS '' @ fmt_d crs @ '' not supported''))
      | Some row \<Rightarrow>
          if 2 \<le> length coordinates \<and> length coordinates \<le> 3
          then Inr \<lparr>ptype = make_point_type row, pcrs = Some crs, pcoords = coordinates\<rparr>
          else Inl (ValueError (fmt_d (int (length coordinates))
                 @ ''-dimensional Point values are not supported'')))"
  by (auto simp add: hydrate_def get_subclass_Point point_new_def split: option.split)

lemma hydrate_7203_12:
  "hydrate Point 7203 [1, 2::int] =
     Inr \<lparr>ptype = make_point_type (7203, ''CartesianPoint'', [''x'', ''y'']),
          pcrs = Some 7203, pcoords = [1, 2]\<rparr>"
  by (simp add: hydrate_Point point_types_def)

lemma hydrate_4326_12:
  "hydrate Point 4326 [1, 2::int] =
     Inr \<lparr>ptype = make_point_type (4326, ''WGS84Point'', [''longitude'', ''latitude'']),
          pcrs = Some 4326, pcoords = [1, 2]\<rparr>"
  by (simp add: hydrate_Point point_types_def)

lemma hydrate_9157_123:
  "hydrate Point 9157 [1, 2, 3::int] =
     Inr \<lparr>ptype = make_point_type (9157, ''CartesianPoint3D'', [''x'', ''y'', ''z'']),
          pcrs = Some 9157, pcoords = [1, 2, 3]\<rparr>"
  by (simp add: hydrate_Point point_types_def)

section \<open>The factory\<close>

text \<open>
  C1. For each of the four codes of the table and every coordinate list of length 2 or
  3, \<open>Point.hydrate\<close> returns an instance of the class made from the row of that code,
  with \<open>crs\<close> set to the code and the coordinates as given, in their order. The number
  of attribute names of the row plays no part.
\<close>

theorem hydrate_registered:
  assumes "c \<in> {7203, 9157, 4326, 4979}"
    and "length coords \<in> {2, 3}"
  shows "\<exists>name fields. (c, name, fields) \<in> set point_types \<and>
           hydrate Point c coords =
             Inr \<lparr>ptype = make_point_type (c, name, fields), pcrs = Some c, pcoords = coords\<rparr>"
proof -
  from find_registered [OF assms(1)] obtain name fields
    where found: "find (\<lambda>row. fst row = c) point_types = Some (c, name, fields)"
      and row: "(c, name, fields) \<in> set point_types"
    by blast
  have len: "2 \<le> length coords \<and> length coords \<le> 3"
    using assms(2) by auto
  have "hydrate Point c coords =
          Inr \<lparr>ptype = make_point_type (c, name, fields), pcrs = Some c, pcoords = coords\<rparr>"
    unfolding hydrate_def get_subclass_Point found using len
    by (simp add: point_new_def)
  with row show ?thesis by blast
qed

text \<open>Three coordinates for the two-axis class of code 7203.\<close>

theorem hydrate_registered_witness:
  "(7203::int) \<in> {7203, 9157, 4326, 4979} \<and> length [1, 2, 3::int] \<in> {2, 3} \<and>
   hydrate Point 7203 [1, 2, 3::int] =
     Inr \<lparr>ptype = make_point_type (7203, ''CartesianPoint'', [''x'', ''y'']),
          pcrs = Some 7203, pcoords = [1, 2, 3]\<rparr>"
  using hydrate_registered [of 7203 "[1, 2, 3::int]"]
  by (auto simp: point_types_def)

text \<open>
  C2. For every code that is not in the table and every coordinate list, of any length,
  \<open>Point.hydrate\<close> raises the \<open>ValueError\<close> whose message names the code; no
  instance is made, and the length of the list is not looked at. The message determines
  the code, since \<open>%d\<close> gives different texts for different integers.
\<close>

theorem hydrate_unregistered:
  assumes "c \<notin> {7203, 9157, 4326, 4979}"
  shows "hydrate Point c coords = Inl (ValueError (''CRS '' @ fmt_d c @ '' not supported''))
         \<and> inj fmt_d"
  unfolding hydrate_def get_subclass_Point find_unregistered [OF assms]
  by (simp add: inj_fmt_d)

theorem hydrate_unregistered_witness:
  "(1234::int) \<notin> {7203, 9157, 4326, 4979} \<and>
   hydrate Point 1234 ([] :: int list) = Inl (ValueError ''CRS 1234 not supported'') \<and>
   hydrate Point (- 1) [1, 2::int] = Inl (ValueError ''CRS -1 not supported'')"
  using hydrate_unregistered [of 1234 "[] :: int list"]
    hydrate_unregistered [of "- 1" "[1, 2::int]"]
  by (simp add: fmt_d_def digits.simps)

text \<open>
  C3. For each of the four codes of the table and every coordinate list whose length is
  neither 2 nor 3, \<open>Point.hydrate\<close> raises the \<open>ValueError\<close> whose message names the
  length of the list; no instance is made. The message determines the length.
\<close>

theorem hydrate_bad_dimension:
  assumes "c \<in> {7203, 9157, 4326, 4979}"
    and "length coords \<notin> {2, 3}"
  shows "hydrate Point c coords =
           Inl (ValueError (fmt_d (int (length coords))
             @ ''-dimensional Point values are not supported''))
         \<and> inj (\<lambda>n. fmt_d (int n))"
proof -
  from find_registered [OF assms(1)] obtain name fields
    where found: "find (\<lambda>row. fst row = c) point_types = Some (c, name, fields)"
    by blast
  have len: "\<not> (2 \<le> length coords \<and> length coords \<le> 3)"
    using assms(2) by auto
  have count: "inj (\<lambda>n. fmt_d (int n))"
    by (rule injI) (auto dest: fmt_d_inject)
  have raised: "hydrate Point c coords =
           Inl (ValueError (fmt_d (int (length coords))
             @ ''-dimensional Point values are not supported''))"
    unfolding hydrate_def get_subclass_Point found using len by simp
  from raised count show ?thesis by (rule conjI)
qed

theorem hydrate_bad_dimension_witness:
  "(4326::int) \<in> {7203, 9157, 4326, 4979} \<and> length [1, 2, 3, 4::int] \<notin> {2, 3} \<and>
   hydrate Point 4326 [1, 2, 3, 4::int] =
     Inl (ValueError ''4-dimensional Point values are not supported'') \<and>
   hydrate Point 9157 ([] :: int list) =
     Inl (ValueError ''0-dimensional Point values are not supported'')"
  using hydrate_bad_dimension [of 4326 "[1, 2, 3, 4::int]"]
    hydrate_bad_dimension [of 9157 "[] :: int list"]
  by (simp add: fmt_d_def digits.simps)

section \<open>Equality and hashing\<close>

lemma point_eq_PyPoint:
  "point_eq p (PyPoint q) = Inr (pcrs p = pcrs q \<and> pcoords p = pcoords q)"
  by (simp add: point_eq_def eq_body_def)

text \<open>
  C4. For two points \<open>p\<close> and \<open>q\<close>, \<open>p == q\<close> holds exactly when their CRS tags are
  equal and their coordinate tuples are equal, which is equality of the lengths and of
  the items at every index. The comparison is reflexive, symmetric and transitive; the
  classes of the two points play no part. \<open>hydrate(7203, 1, 2)\<close> equals itself and
  differs from \<open>hydrate(4326, 1, 2)\<close>.
\<close>

theorem point_eq_points:
  "point_eq p (PyPoint q) = Inr (pcrs p = pcrs q \<and> pcoords p = pcoords q) \<and>
   point_eq p (PyPoint q) =
     Inr (pcrs p = pcrs q \<and> length (pcoords p) = length (pcoords q) \<and>
          (\<forall>i < length (pcoords p). pcoords p ! i = pcoords q ! i)) \<and>
   point_eq p (PyPoint p) = Inr True \<and>
   point_eq q (PyPoint p) = point_eq p (PyPoint q) \<and>
   (point_eq p (PyPoint q) = Inr True \<and> point_eq q (PyPoint r) = Inr True
      \<longrightarrow> point_eq p (PyPoint r) = Inr True) \<and>
   (\<exists>a b. hydrate Point 7203 [1, 2::int] = Inr a \<and> hydrate Point 7203 [1, 2::int] = Inr b
      \<and> point_eq a (PyPoint b) = Inr True) \<and>
   (\<exists>a b. hydrate Point 7203 [1, 2::int] = Inr a \<and> hydrate Point 4326 [1, 2::int] = Inr b
      \<and> point_eq a (PyPoint b) = Inr False)"
proof -
  have iff: "point_eq p (PyPoint q) = Inr (pcrs p = pcrs q \<and> pcoords p = pcoords q)"
    by (rule point_eq_PyPoint)
  have elementwise: "point_eq p (PyPoint q) =
     Inr (pcrs p = pcrs q \<and> length (pcoords p) = length (pcoords q) \<and>
          (\<forall>i < length (pcoords p). pcoords p ! i = pcoords q ! i))"
    unfolding point_eq_PyPoint by (simp add: list_eq_iff_nth_eq)
  have reflexive: "point_eq p (PyPoint p) = Inr True"
    by (simp add: point_eq_PyPoint)
  have symmetric: "point_eq q (PyPoint p) = point_eq p (PyPoint q)"
    by (auto simp: point_eq_PyPoint)
  have transitive: "point_eq p (PyPoint q) = Inr True \<and> point_eq q (PyPoint r) = Inr True
      \<longrightarrow> point_eq p (PyPoint r) = Inr True"
    by (simp add: point_eq_PyPoint)
  have same: "\<exists>a b. hydrate Point 7203 [1, 2::int] = Inr a \<and> hydrate Point 7203 [1, 2::int] = Inr b
      \<and> point_eq a (PyPoint b) = Inr True"
    by (simp add: hydrate_7203_12 point_eq_PyPoint)
  have other: "\<exists>a b. hydrate Point 7203 [1, 2::int] = Inr a \<and> hydrate Point 4326 [1, 2::int] = Inr b
      \<and> point_eq a (PyPoint b) = Inr False"
    by (simp add: hydrate_7203_12 hydrate_4326_12 point_eq_PyPoint)
  from iff elementwise reflexive symmetric transitive same other show ?thesis
    by (intro conjI)
qed

text \<open>
  Three points of three classes with the same tag and coordinates: the first equals the
  second, the second the third, and so the first the third.
\<close>

theorem point_eq_points_witness:
  "point_eq \<lparr>ptype = make_point_type (7203, ''CartesianPoint'', [''x'', ''y'']),
             pcrs = Some 7203, pcoords = [1, 2::int]\<rparr>
     (PyPoint \<lparr>ptype = Point, pcrs = Some 7203, pcoords = [1, 2]\<rparr>) = Inr True \<and>
   point_eq \<lparr>ptype = Point, pcrs = Some 7203, pcoords = [1, 2::int]\<rparr>
     (PyPoint \<lparr>ptype = make_point_type (4326, ''WGS84Point'', [''longitude'', ''latitude'']),
               pcrs = Some 7203, pcoords = [1, 2]\<rparr>) = Inr True \<and>
   point_eq \<lparr>ptype = make_point_type (7203, ''CartesianPoint'', [''x'', ''y'']),
             pcrs = Some 7203, pcoords = [1, 2::int]\<rparr>
     (PyPoint \<lparr>ptype = make_point_type (4326, ''WGS84Point'', [''longitude'', ''latitude'']),
               pcrs = Some 7203, pcoords = [1, 2]\<rparr>) = Inr True"
proof -
  let ?p = "\<lparr>ptype = make_point_type (7203, ''CartesianPoint'', [''x'', ''y'']),
             pcrs = Some 7203, pcoords = [1, 2::int]\<rparr>"
  let ?q = "\<lparr>ptype = Point, pcrs = Some 7203, pcoords = [1, 2::int]\<rparr>"
  let ?r = "\<lparr>ptype = make_point_type (4326, ''WGS84Point'', [''longitude'', ''latitude'']),
               pcrs = Some 7203, pcoords = [1, 2::int]\<rparr>"
  have pq: "point_eq ?p (PyPoint ?q) = Inr True"
    by (simp add: point_eq_def eq_body_def)
  have qr: "point_eq ?q (PyPoint ?r) = Inr True"
    by (simp add: point_eq_def eq_body_def)
  from point_eq_points [of ?p ?q ?r] pq qr have "point_eq ?p (PyPoint ?r) = Inr True"
    by blast
  with pq qr show ?thesis by blast
qed

text \<open>
  C5. Two points that compare equal have the same hash, whatever the built-in \<open>hash\<close>
  computes on CRS values and on tuples: the hash of a point depends on its CRS tag and
  its coordinate tuple only, not on its class.
\<close>

theorem point_hash_consistent:
  "(point_eq p (PyPoint q) = Inr True
      \<longrightarrow> point_hash hash_crs hash_tuple p = point_hash hash_crs hash_tuple q) \<and>
   (pcrs p = pcrs q \<and> pcoords p = pcoords q
      \<longrightarrow> point_hash hash_crs hash_tuple p = point_hash hash_crs hash_tuple q)"
  by (simp add: point_eq_PyPoint point_hash_def)

theorem point_hash_consistent_witness:
  "point_eq \<lparr>ptype = make_point_type (7203, ''CartesianPoint'', [''x'', ''y'']),
             pcrs = Some 7203, pcoords = [1, 2::int]\<rparr>
     (PyPoint \<lparr>ptype = Point, pcrs = Some 7203, pcoords = [1, 2]\<rparr>) = Inr True \<and>
   point_hash (\<lambda>c. case c of None \<Rightarrow> 0 | Some n \<Rightarrow> n) sum_list
     \<lparr>ptype = make_point_type (7203, ''CartesianPoint'', [''x'', ''y'']),
      pcrs = Some 7203, pcoords = [1, 2::int]\<rparr> =
   point_hash (\<lambda>c. case c of None \<Rightarrow> 0 | Some n \<Rightarrow> n) sum_list
     \<lparr>ptype = Point, pcrs = Some 7203, pcoords = [1, 2::int]\<rparr>"
proof -
  let ?p = "\<lparr>ptype = make_point_type (7203, ''CartesianPoint'', [''x'', ''y'']),
             pcrs = Some 7203, pcoords = [1, 2::int]\<rparr>"
  let ?q = "\<lparr>ptype = Point, pcrs = Some 7203, pcoords = [1, 2::int]\<rparr>"
  have pq: "point_eq ?p (PyPoint ?q) = Inr True"
    by (simp add: point_eq_def eq_body_def)
  with point_hash_consistent [of ?p ?q "\<lambda>c. case c of None \<Rightarrow> 0 | Some n \<Rightarrow> n" sum_list]
  show ?thesis by blast
qed

text \<open>
  What \<open>__eq__\<close> does with what \<open>other\<close> does: an \<open>AttributeError\<close> or \<open>TypeError\<close>
  from the read of \<open>other.crs\<close> or from the iteration of \<open>other\<close> becomes \<open>False\<close>, any
  other exception leaves \<open>__eq__\<close>.
\<close>

lemma point_eq_unfold:
  "point_eq p x =
     (case getattr_crs x of
        Inl e \<Rightarrow> eq_except (Inl e)
      | Inr c \<Rightarrow>
          if pcrs p = c
          then (case tuple_of x of Inl e \<Rightarrow> eq_except (Inl e) | Inr t \<Rightarrow> Inr (pcoords p = t))
          else Inr False)"
  by (simp add: point_eq_def eq_body_def split: sum.splits)

lemma point_eq_raises:
  assumes "e \<noteq> AttributeError" and "e \<noteq> TypeError"
  shows "getattr_crs x = Inl e \<Longrightarrow> point_eq p x = Inl e"
    and "getattr_crs x = Inr (pcrs p) \<Longrightarrow> tuple_of x = Inl e \<Longrightarrow> point_eq p x = Inl e"
  using assms by (cases e; simp add: point_eq_unfold)+




section \<open>Display\<close>

lemma join_space: "join '' '' parts = spec_coords parts"
  by (induction "'' ''" parts rule: join.induct) simp_all

text \<open>
  C7. The text of a point is \<open>POINT(\<close>, the coordinates in their stored order, each as
  the built-in \<open>str\<close> renders it, separated by single spaces, and \<open>)\<close>; written out for
  two and for three coordinates. For coordinates that \<open>str\<close> renders as \<open>1.0\<close> and
  \<open>2.0\<close> the text of \<open>hydrate(7203, ...)\<close> is \<open>POINT(1.0 2.0)\<close>, and with the decimal
  rendering of integers the text of \<open>hydrate(9157, 1, 2, 3)\<close> is \<open>POINT(1 2 3)\<close>.
\<close>

theorem point_repr_format:
  "point_repr str p = spec_display (map str (pcoords p)) \<and>
   point_repr str (p\<lparr>pcoords := [a, b]\<rparr>) = ''POINT('' @ str a @ '' '' @ str b @ '')'' \<and>
   point_repr str (p\<lparr>pcoords := [a, b, c]\<rparr>)
     = ''POINT('' @ str a @ '' '' @ str b @ '' '' @ str c @ '')'' \<and>
   (str x = ''1.0'' \<and> str y = ''2.0'' \<longrightarrow>
      (\<exists>v. hydrate Point 7203 [x, y] = Inr v \<and> point_repr str v = ''POINT(1.0 2.0)'')) \<and>
   (\<exists>v. hydrate Point 9157 [1, 2, 3::int] = Inr v \<and> point_repr fmt_d v = ''POINT(1 2 3)'')"
proof -
  have general: "point_repr str p = spec_display (map str (pcoords p))"
    by (simp add: point_repr_def spec_display_def join_space)
  have two: "point_repr str (p\<lparr>pcoords := [a, b]\<rparr>) = ''POINT('' @ str a @ '' '' @ str b @ '')''"
    by (simp add: point_repr_def)
  have three: "point_repr str (p\<lparr>pcoords := [a, b, c]\<rparr>)
     = ''POINT('' @ str a @ '' '' @ str b @ '' '' @ str c @ '')''"
    by (simp add: point_repr_def)
  have floats: "str x = ''1.0'' \<and> str y = ''2.0'' \<longrightarrow>
      (\<exists>v. hydrate Point 7203 [x, y] = Inr v \<and> point_repr str v = ''POINT(1.0 2.0)'')"
    by (simp add: hydrate_Point point_types_def point_repr_def)
  have ints: "\<exists>v. hydrate Point 9157 [1, 2, 3::int] = Inr v \<and> point_repr fmt_d v = ''POINT(1 2 3)''"
    by (simp add: hydrate_9157_123 point_repr_def fmt_d_def digits.simps)
  from general two three floats ints show ?thesis
    by (intro conjI)
qed

text \<open>
  A rendering that gives \<open>1.0\<close> and \<open>2.0\<close> for the numbers one and two: the digits of
  the whole part followed by \<open>.0\<close>.
\<close>

theorem point_repr_format_witness:
  "(\<lambda>r::real. fmt_d \<lfloor>r\<rfloor> @ ''.0'') 1 = ''1.0'' \<and>
   (\<lambda>r::real. fmt_d \<lfloor>r\<rfloor> @ ''.0'') 2 = ''2.0'' \<and>
   (\<exists>v. hydrate Point 7203 [1, 2::real] = Inr v \<and>
        point_repr (\<lambda>r. fmt_d \<lfloor>r\<rfloor> @ ''.0'') v = ''POINT(1.0 2.0)'')"
proof -
  let ?str = "\<lambda>r::real. fmt_d \<lfloor>r\<rfloor> @ ''.0''"
  have one: "?str 1 = ''1.0''" and two: "?str 2 = ''2.0''"
    by (simp_all add: fmt_d_def digits.simps)
  with point_repr_format [where str = ?str and x = 1 and y = 2]
  show ?thesis by blast
qed

section \<open>Named accessors\<close>

lemma add_properties_other:
  "name \<notin> set axes \<Longrightarrow> add_properties attributes i axes name = attributes name"
  by (induction axes arbitrary: attributes i) auto

lemma add_properties_nth:
  "distinct axes \<Longrightarrow> k < length axes \<Longrightarrow>
     add_properties attributes i axes (axes ! k) = Some (i + k)"
proof (induction axes arbitrary: attributes i k)
  case Nil
  then show ?case by simp
next
  case (Cons axis axes)
  show ?case
  proof (cases k)
    case 0
    with Cons.prems show ?thesis
      by (simp add: add_properties_other)
  next
    case (Suc j)
    with Cons.prems have "add_properties (attributes(axis \<mapsto> i)) (Suc i) axes (axes ! j)
        = Some (Suc i + j)"
      by (intro Cons.IH) auto
    with Suc show ?thesis by simp
  qed
qed

lemma point_types_distinct:
  "(c, name, axes) \<in> set point_types \<Longrightarrow> distinct axes"
  by (auto simp: point_types_def)

text \<open>
  C8, as stated: on every point that \<open>hydrate\<close> returns, the accessor of the axis name
  at position \<open>i\<close> returns the coordinate at index \<open>i\<close>. It fails on a point of a
  three-axis class hydrated from two coordinates: the accessor of the third name reads
  index 2 of a tuple of length 2 and raises \<open>IndexError\<close>.
\<close>

theorem accessor_short_counterexample:
  "(9157, ''CartesianPoint3D'', [''x'', ''y'', ''z'']) \<in> set point_types \<and>
   hydrate Point 9157 [1, 2::int] =
     Inr \<lparr>ptype = make_point_type (9157, ''CartesianPoint3D'', [''x'', ''y'', ''z'']),
          pcrs = Some 9157, pcoords = [1, 2]\<rparr> \<and>
   getattr_property
     \<lparr>ptype = make_point_type (9157, ''CartesianPoint3D'', [''x'', ''y'', ''z'']),
      pcrs = Some 9157, pcoords = [1, 2::int]\<rparr> ([''x'', ''y'', ''z''] ! 2) = Inl IndexError"
  by (simp add: hydrate_Point point_types_def getattr_property_def getitem_def)

text \<open>
  C8, amended: on every point that \<open>hydrate\<close> returns for a row of the table, the
  accessor of the axis name at position \<open>i\<close> returns the coordinate at index \<open>i\<close>
  whenever the point has a coordinate at that index. \<open>hydrate(7203, 3, 4)\<close> has
  \<open>x == 3\<close> and \<open>y == 4\<close>; \<open>hydrate(4979, 1, 2, 3)\<close> has \<open>longitude == 1\<close>,
  \<open>latitude == 2\<close> and \<open>height == 3\<close>.
\<close>

theorem accessor_projection:
  "((c, name, axes) \<in> set point_types \<and> hydrate Point c coords = Inr v
      \<and> i < length axes \<and> i < length coords
      \<longrightarrow> getattr_property v (axes ! i) = Inr (coords ! i) \<and> pcoords v = coords) \<and>
   (\<exists>v. hydrate Point 7203 [3, 4::int] = Inr v
      \<and> getattr_property v ''x'' = Inr 3 \<and> getattr_property v ''y'' = Inr 4) \<and>
   (\<exists>v. hydrate Point 4979 [1, 2, 3::int] = Inr v
      \<and> getattr_property v ''longitude'' = Inr 1 \<and> getattr_property v ''latitude'' = Inr 2
      \<and> getattr_property v ''height'' = Inr 3)"
proof -
  have general: "getattr_property v (axes ! i) = Inr (coords ! i) \<and> pcoords v = coords"
    if row: "(c, name, axes) \<in> set point_types" and v: "hydrate Point c coords = Inr v"
      and i: "i < length axes" "i < length coords"
  proof -
    from v have v_eq: "v = \<lparr>ptype = make_point_type (c, name, axes), pcrs = Some c,
        pcoords = coords\<rparr>"
      by (simp add: hydrate_Point find_row [OF row] split: if_splits)
    from point_types_distinct [OF row] have "distinct axes" .
    then have "add_properties Map.empty 0 axes (axes ! i) = Some (0 + i)"
      using i(1) by (rule add_properties_nth)
    then show ?thesis
      using i(2) by (simp add: v_eq getattr_property_def getitem_def)
  qed
  have cartesian: "\<exists>v. hydrate Point 7203 [3, 4::int] = Inr v
      \<and> getattr_property v ''x'' = Inr 3 \<and> getattr_property v ''y'' = Inr 4"
    by (simp add: hydrate_Point point_types_def getattr_property_def getitem_def)
  have wgs: "\<exists>v. hydrate Point 4979 [1, 2, 3::int] = Inr v
      \<and> getattr_property v ''longitude'' = Inr 1 \<and> getattr_property v ''latitude'' = Inr 2
      \<and> getattr_property v ''height'' = Inr 3"
    by (simp add: hydrate_Point point_types_def getattr_property_def getitem_def)
  from general cartesian wgs show ?thesis by blast
qed

text \<open>The accessor \<open>y\<close> of a three-axis point hydrated from two coordinates.\<close>

theorem accessor_projection_witness:
  "(9157, ''CartesianPoint3D'', [''x'', ''y'', ''z'']) \<in> set point_types \<and>
   hydrate Point 9157 [5, 6::int] =
     Inr \<lparr>ptype = make_point_type (9157, ''CartesianPoint3D'', [''x'', ''y'', ''z'']),
          pcrs = Some 9157, pcoords = [5, 6]\<rparr> \<and>
   (1::nat) < length [''x'', ''y'', ''z''] \<and> (1::nat) < length [5, 6::int] \<and>
   getattr_property
     \<lparr>ptype = make_point_type (9157, ''CartesianPoint3D'', [''x'', ''y'', ''z'']),
      pcrs = Some 9157, pcoords = [5, 6::int]\<rparr> ''y'' = Inr 6"
proof -
  let ?v = "\<lparr>ptype = make_point_type (9157, ''CartesianPoint3D'', [''x'', ''y'', ''z'']),
          pcrs = Some 9157, pcoords = [5, 6::int]\<rparr>"
  have row: "(9157, ''CartesianPoint3D'', [''x'', ''y'', ''z'']) \<in> set point_types"
    by (simp add: point_types_def)
  have v: "hydrate Point 9157 [5, 6::int] = Inr ?v"
    by (simp add: hydrate_Point point_types_def)
  from accessor_projection [where c = 9157 and name = "''CartesianPoint3D''"
      and axes = "[''x'', ''y'', ''z'']" and coords = "[5, 6::int]" and v = ?v and i = 1] row v
  have "getattr_property ?v ([''x'', ''y'', ''z''] ! 1) = Inr ([5, 6::int] ! 1)"
    by simp
  then have "getattr_property ?v ''y'' = Inr 6" by simp
  with row v show ?thesis by simp
qed



section \<open>The number of coordinates\<close>

text \<open>
  C9, as stated: every point has two or three coordinates, also one constructed
  directly. It fails on \<open>Point([5])\<close>: \<open>__new__\<close> hands the iterable to \<open>tuple.__new__\<close>
  and checks nothing, so the point has one coordinate.
\<close>

theorem direct_construction_counterexample:
  "\<not> (length (pcoords (point_new Point [5::int])) = 2
      \<or> length (pcoords (point_new Point [5::int])) = 3)"
  by (simp add: point_new_def)

text \<open>
  C9, amended: every point that \<open>hydrate\<close> returns, on whatever class it is called, has
  two or three coordinates; a point constructed directly holds the items of the
  iterable, however many they are.
\<close>

theorem hydrate_coordinate_count:
  "(hydrate cls c coords = Inr v \<longrightarrow> length (pcoords v) = 2 \<or> length (pcoords v) = 3) \<and>
   pcoords (point_new cls iterable) = iterable"
  by (auto simp: hydrate_def point_new_def split: option.splits if_splits)

theorem hydrate_coordinate_count_witness:
  "hydrate Point 4326 [1, 2::int] =
     Inr \<lparr>ptype = make_point_type (4326, ''WGS84Point'', [''longitude'', ''latitude'']),
          pcrs = Some 4326, pcoords = [1, 2]\<rparr> \<and>
   (length (pcoords \<lparr>ptype = make_point_type (4326, ''WGS84Point'', [''longitude'', ''latitude'']),
          pcrs = Some 4326, pcoords = [1, 2::int]\<rparr>) = 2 \<or>
    length (pcoords \<lparr>ptype = make_point_type (4326, ''WGS84Point'', [''longitude'', ''latitude'']),
          pcrs = Some 4326, pcoords = [1, 2::int]\<rparr>) = 3)"
proof -
  let ?v = "\<lparr>ptype = make_point_type (4326, ''WGS84Point'', [''longitude'', ''latitude'']),
          pcrs = Some 4326, pcoords = [1, 2::int]\<rparr>"
  have v: "hydrate Point 4326 [1, 2::int] = Inr ?v"
    by (rule hydrate_4326_12)
  with hydrate_coordinate_count [where cls = Point and c = 4326 and coords = "[1, 2::int]"
      and v = ?v]
  show ?thesis by blast
qed

end
